theory Spec2Isabelle
  imports Main "HOL-Library.Multiset" "HOL-Library.Word"
begin

section \<open>Snakes and ladders: the board, the rules and the game engine\<close>

text \<open>
  A shallow embedding of \<^verbatim>\<open>SnakeAndLadder.cpp\<close>.

  \<^item> The C++ \<^verbatim>\<open>int\<close> is a 32-bit word, \<open>int32\<close>: \<open>+\<close> and \<open>*\<close> wrap around as two's
    complement arithmetic does in the compiled program, \<open>sint\<close> reads the signed value,
    and every comparison of the source is a comparison of signed values.
  \<^item> Everything written to \<^verbatim>\<open>cout\<close> and every call of \<^verbatim>\<open>IObserver::update\<close> is an
    \<open>event\<close>. A constructor or board function that prints returns the events it
    produced, in order; the game appends its events to the field \<open>events\<close>.
  \<^item> Board entities are never modified after construction, so the board holds them by
    value. Players are modified through pointers held in the turn queue, so the game
    keeps a store of player objects, indexed by address.
\<close>

subsection \<open>Output\<close>

type_synonym addr = nat

type_synonym int32 = "32 word"

datatype event =
    Cout string         \<comment> \<open>text written to \<^verbatim>\<open>cout\<close> by one statement\<close>
  | Update addr string  \<comment> \<open>\<^verbatim>\<open>observer->update(msg)\<close> on the observer at this address\<close>

definition endl :: string where
  "endl = [CHR 0x0A]"

definition digit_char :: "nat \<Rightarrow> char" where
  "digit_char d = ''0123456789'' ! d"

fun dec_nat :: "nat \<Rightarrow> string" where
  "dec_nat n = (if n < 10 then [digit_char n] else dec_nat (n div 10) @ [digit_char (n mod 10)])"

declare dec_nat.simps [simp del]

definition to_string :: "int32 \<Rightarrow> string" where
  "to_string i =
     (if sint i < 0 then CHR ''-'' # dec_nat (nat (- sint i)) else dec_nat (nat (sint i)))"

text \<open>
  Whether the sum of two \<^verbatim>\<open>int\<close> values is itself an \<^verbatim>\<open>int\<close> value, so that the
  addition of the program does not wrap around.
\<close>

definition sum_fits :: "int32 \<Rightarrow> int32 \<Rightarrow> bool" where
  "sum_fits a b \<longleftrightarrow> - (2 ^ 31) \<le> sint a + sint b \<and> sint a + sint b < 2 ^ 31"

subsection \<open>Board entities\<close>

datatype BoardEntity =
    Snake (startIndex: int32) (endIndex: int32)
  | Ladder (startIndex: int32) (endIndex: int32)

definition getStart :: "BoardEntity \<Rightarrow> int32" where
  "getStart e = startIndex e"

definition getEnd :: "BoardEntity \<Rightarrow> int32" where
  "getEnd e = endIndex e"

fun name :: "BoardEntity \<Rightarrow> string" where
  "name (Snake s e) = ''SNAKE''"
| "name (Ladder s e) = ''LADDER''"

fun display_entity :: "BoardEntity \<Rightarrow> event list" where
  "display_entity (Snake s e) = [Cout (''Snake: '' @ to_string s @ '' -> '' @ to_string e @ endl)]"
| "display_entity (Ladder s e) = [Cout (''Ladder: '' @ to_string s @ '' -> '' @ to_string e @ endl)]"

text \<open>The constructors: the entity built, and what the constructor printed.\<close>

definition new_Snake :: "int32 \<Rightarrow> int32 \<Rightarrow> BoardEntity \<times> event list" where
  "new_Snake start end' =
     (Snake start end',
      if sint end' \<ge> sint start
      then [Cout (''Invalid snake configuration: endIndex must be less than startIndex.'' @ endl)]
      else [])"

definition new_Ladder :: "int32 \<Rightarrow> int32 \<Rightarrow> BoardEntity \<times> event list" where
  "new_Ladder start end' =
     (Ladder start end',
      if sint end' \<le> sint start
      then [Cout (''Invalid ladder configuration: endIndex must be greater than startIndex.'' @ endl)]
      else [])"

subsection \<open>The board\<close>

record Board =
  cellCount :: int32
  entitiesList :: "BoardEntity list"
  entityMap :: "int32 \<rightharpoonup> BoardEntity"

definition new_Board :: "int32 \<Rightarrow> Board" where
  "new_Board s = \<lparr>cellCount = s * s, entitiesList = [], entityMap = Map.empty\<rparr>"

definition canAddEntity :: "Board \<Rightarrow> int32 \<Rightarrow> bool" where
  "canAddEntity b position = (entityMap b position = None)"

definition addBoardEntity :: "Board \<Rightarrow> BoardEntity \<Rightarrow> Board" where
  "addBoardEntity b boardEntity =
     (if canAddEntity b (getStart boardEntity)
      then b\<lparr>entitiesList := entitiesList b @ [boardEntity],
             entityMap := (entityMap b)(getStart boardEntity \<mapsto> boardEntity)\<rparr>
      else b)"

definition getEntity :: "Board \<Rightarrow> int32 \<Rightarrow> BoardEntity option" where
  "getEntity b position =
     (if entityMap b position \<noteq> None then entityMap b position else None)"

definition getBoardSize :: "Board \<Rightarrow> int32" where
  "getBoardSize b = cellCount b"

definition display :: "Board \<Rightarrow> event list" where
  "display b =
     (let snakeCount = (of_nat (length (filter (\<lambda>e. name e = ''SNAKE'') (entitiesList b))) :: int32);
          ladderCount = (of_nat (length (filter (\<lambda>e. name e \<noteq> ''SNAKE'') (entitiesList b))) :: int32)
      in [Cout (endl @ ''=== Board Configuration ==='' @ endl),
          Cout (''Total Cells: '' @ to_string (cellCount b) @ endl),
          Cout (endl @ ''Snakes: '' @ to_string snakeCount @ endl)]
         @ concat (map display_entity (filter (\<lambda>e. name e = ''SNAKE'') (entitiesList b)))
         @ [Cout (endl @ ''Ladders: '' @ to_string ladderCount @ endl)]
         @ concat (map display_entity (filter (\<lambda>e. name e = ''LADDER'') (entitiesList b)))
         @ [Cout (''========================='' @ endl)])"

text \<open>
  The public interface of \<open>Board\<close> as calls. Its fields are private, so a board changes
  only through these member functions; \<open>setupBoard\<close> hands the board to a strategy,
  which can do no more than make such calls. Only \<open>addBoardEntity\<close> writes.
\<close>

datatype board_call =
    CanAddEntity int32
  | AddBoardEntity BoardEntity
  | GetEntity int32
  | GetBoardSize
  | Display

fun call :: "Board \<Rightarrow> board_call \<Rightarrow> Board" where
  "call b (AddBoardEntity boardEntity) = addBoardEntity b boardEntity"
| "call b (CanAddEntity position) = b"
| "call b (GetEntity position) = b"
| "call b GetBoardSize = b"
| "call b Display = b"

subsection \<open>The standard setup strategy\<close>

text \<open>
  One statement \<^verbatim>\<open>board->addBoardEntity(new Snake(s, e))\<close>: the constructor runs (and may
  print), then the entity is offered to the board.
\<close>

definition add_new :: "Board \<times> event list \<Rightarrow> BoardEntity \<times> event list \<Rightarrow> Board \<times> event list" where
  "add_new st made = (addBoardEntity (fst st) (fst made), snd st @ snd made)"

definition StandardBoardSetupStrategy_setupBoard :: "Board \<Rightarrow> Board \<times> event list" where
  "StandardBoardSetupStrategy_setupBoard board =
     (if getBoardSize board \<noteq> 100
      then (board, [Cout (''Standard configuration supports only a 10x10 board (100 cells).'' @ endl)])
      else foldl add_new (board, [])
        [new_Snake 99 54, new_Snake 95 75, new_Snake 92 88, new_Snake 89 68, new_Snake 74 53,
         new_Snake 64 60, new_Snake 62 19, new_Snake 49 11, new_Snake 46 25, new_Snake 16 6,
         new_Ladder 2 38, new_Ladder 7 14, new_Ladder 8 31, new_Ladder 15 26, new_Ladder 21 42,
         new_Ladder 28 84, new_Ladder 36 44, new_Ladder 51 67, new_Ladder 71 91, new_Ladder 78 98,
         new_Ladder 87 94])"

definition setupBoard :: "Board \<Rightarrow> (Board \<Rightarrow> Board \<times> event list) \<Rightarrow> Board \<times> event list" where
  "setupBoard b strategy = strategy b"

text \<open>The canonical layout as data, for comparison with what the strategy leaves on the board.\<close>

definition standard_layout :: "BoardEntity list" where
  "standard_layout =
     [Snake 99 54, Snake 95 75, Snake 92 88, Snake 89 68, Snake 74 53,
      Snake 64 60, Snake 62 19, Snake 49 11, Snake 46 25, Snake 16 6,
      Ladder 2 38, Ladder 7 14, Ladder 8 31, Ladder 15 26, Ladder 21 42,
      Ladder 28 84, Ladder 36 44, Ladder 51 67, Ladder 71 91, Ladder 78 98,
      Ladder 87 94]"

subsection \<open>The rules\<close>

definition isValidMove :: "int32 \<Rightarrow> int32 \<Rightarrow> int32 \<Rightarrow> bool" where
  "isValidMove currentPos diceValue boardSize = (sint (currentPos + diceValue) \<le> sint boardSize)"

definition calculateNewPosition :: "int32 \<Rightarrow> int32 \<Rightarrow> Board \<Rightarrow> int32" where
  "calculateNewPosition currentPos diceValue board =
     (let newPos = currentPos + diceValue
      in case getEntity board newPos of
           Some entity \<Rightarrow> getEnd entity
         | None \<Rightarrow> newPos)"

definition checkWinCondition :: "int32 \<Rightarrow> int32 \<Rightarrow> bool" where
  "checkWinCondition position boardSize = (position = boardSize)"

subsection \<open>Players\<close>

record SnakeAndLadderPlayer =
  playerId :: int32
  playerName :: string
  currentPosition :: int32
  winCount :: int32

definition new_SnakeAndLadderPlayer :: "int32 \<Rightarrow> string \<Rightarrow> SnakeAndLadderPlayer" where
  "new_SnakeAndLadderPlayer i n =
     \<lparr>playerId = i, playerName = n, currentPosition = 0, winCount = 0\<rparr>"

definition getName :: "SnakeAndLadderPlayer \<Rightarrow> string" where
  "getName p = playerName p"

definition getPosition :: "SnakeAndLadderPlayer \<Rightarrow> int32" where
  "getPosition p = currentPosition p"

definition setPosition :: "SnakeAndLadderPlayer \<Rightarrow> int32 \<Rightarrow> SnakeAndLadderPlayer" where
  "setPosition p pos = p\<lparr>currentPosition := pos\<rparr>"

definition getScore :: "SnakeAndLadderPlayer \<Rightarrow> int32" where
  "getScore p = winCount p"

definition incrementScore :: "SnakeAndLadderPlayer \<Rightarrow> SnakeAndLadderPlayer" where
  "incrementScore p = p\<lparr>winCount := winCount p + 1\<rparr>"

subsection \<open>The game\<close>

text \<open>
  The fields of the class, and with them the two parts of the world the game acts on:
  \<open>players\<close>, the player objects in memory (the turn queue holds their addresses, so a
  player registered twice is one object), and \<open>events\<close>, the output produced so far.
  Every address in the queue is taken to be that of a live player object.

  The rules object is always a \<^verbatim>\<open>StandardSnakeAndLadderRules\<close>. The dice is not part of
  the state: the values returned by \<^verbatim>\<open>gameDice->roll()\<close> are given to the loop as a list,
  one per turn. Waiting for the Enter key has no effect on the state and is left out.
\<close>

record SnakeAndLadderGame =
  gameBoard :: Board
  turnQueue :: "addr list"
  subscriberList :: "addr list"
  isGameOver :: bool
  players :: "addr \<Rightarrow> SnakeAndLadderPlayer"
  events :: "event list"

definition new_SnakeAndLadderGame ::
  "Board \<Rightarrow> (addr \<Rightarrow> SnakeAndLadderPlayer) \<Rightarrow> SnakeAndLadderGame" where
  "new_SnakeAndLadderGame b store =
     \<lparr>gameBoard = b, turnQueue = [], subscriberList = [], isGameOver = False,
      players = store, events = []\<rparr>"

definition addPlayer :: "SnakeAndLadderGame \<Rightarrow> addr \<Rightarrow> SnakeAndLadderGame" where
  "addPlayer g player = g\<lparr>turnQueue := turnQueue g @ [player]\<rparr>"

definition addObserver :: "SnakeAndLadderGame \<Rightarrow> addr \<Rightarrow> SnakeAndLadderGame" where
  "addObserver g observer = g\<lparr>subscriberList := subscriberList g @ [observer]\<rparr>"

definition cout :: "string \<Rightarrow> SnakeAndLadderGame \<Rightarrow> SnakeAndLadderGame" where
  "cout text g = g\<lparr>events := events g @ [Cout text]\<rparr>"

definition notify :: "string \<Rightarrow> SnakeAndLadderGame \<Rightarrow> SnakeAndLadderGame" where
  "notify msg g =
     g\<lparr>events := events g @ map (\<lambda>observer. Update observer msg) (subscriberList g)\<rparr>"

definition displayPlayerPositions :: "SnakeAndLadderGame \<Rightarrow> SnakeAndLadderGame" where
  "displayPlayerPositions g =
     g\<lparr>events := events g
          @ [Cout (endl @ ''=== Current Player Positions ==='' @ endl)]
          @ map (\<lambda>player. Cout (getName (players g player) @ '': ''
                               @ to_string (getPosition (players g player)) @ endl))
              (turnQueue g)
          @ [Cout (''=============================='' @ endl)]\<rparr>"

text \<open>The calls of \<open>update\<close> among some events: which observer received which message.\<close>

fun notifications :: "event list \<Rightarrow> (addr \<times> string) list" where
  "notifications [] = []"
| "notifications (Cout text # evs) = notifications evs"
| "notifications (Update observer msg # evs) = (observer, msg) # notifications evs"

text \<open>
  The branch of the loop body taken when \<open>isValidMove\<close> holds: set the position, report
  a snake or ladder at the cell landed on, report the move, then either declare the
  win or send the player to the back of the queue.
\<close>

definition move :: "addr \<Rightarrow> int32 \<Rightarrow> int32 \<Rightarrow> SnakeAndLadderGame \<Rightarrow> SnakeAndLadderGame" where
  "move currentPlayer currentPos rollValue g =
     (let intermediatePos = currentPos + rollValue;
          newPos = calculateNewPosition currentPos rollValue (gameBoard g);
          g1 = g\<lparr>players := (players g)(currentPlayer := setPosition (players g currentPlayer) newPos)\<rparr>;
          g2 = (case getEntity (gameBoard g1) intermediatePos of
                  None \<Rightarrow> g1
                | Some entity \<Rightarrow>
                    if name entity = ''SNAKE''
                    then notify (getName (players g1 currentPlayer) @ '' encountered a snake at ''
                                 @ to_string intermediatePos @ '' and moved down to '' @ to_string newPos)
                           (cout (''Encountered snake at '' @ to_string intermediatePos
                                  @ ''. Moving down to '' @ to_string newPos @ ''.'' @ endl) g1)
                    else notify (getName (players g1 currentPlayer) @ '' encountered a ladder at ''
                                 @ to_string intermediatePos @ '' and moved up to '' @ to_string newPos)
                           (cout (''Encountered ladder at '' @ to_string intermediatePos
                                  @ ''. Moving up to '' @ to_string newPos @ ''.'' @ endl) g1));
          g3 = notify (getName (players g2 currentPlayer) @ '' completed a move. Current position: ''
                       @ to_string newPos) g2;
          g4 = displayPlayerPositions g3
      in if checkWinCondition newPos (getBoardSize (gameBoard g4))
         then let g5 = cout (endl @ getName (players g4 currentPlayer) @ '' has won the game.'' @ endl) g4;
                  g6 = g5\<lparr>players := (players g5)(currentPlayer := incrementScore (players g5 currentPlayer))\<rparr>;
                  g7 = notify (''Game concluded. Winner: '' @ getName (players g6 currentPlayer)) g6
              in g7\<lparr>isGameOver := True\<rparr>
         else g4\<lparr>turnQueue := tl (turnQueue g4) @ [currentPlayer]\<rparr>)"

text \<open>
  One iteration of the loop of \<open>play\<close>, for the given roll. \<^verbatim>\<open>front()\<close> of an empty queue
  is undefined: the result is \<open>None\<close>.
\<close>

definition turn :: "int32 \<Rightarrow> SnakeAndLadderGame \<Rightarrow> SnakeAndLadderGame option" where
  "turn rollValue g =
     (case turnQueue g of
        [] \<Rightarrow> None
      | currentPlayer # rest \<Rightarrow>
          let g1 = cout (endl @ getName (players g currentPlayer)
                         @ '''s turn. Press Enter to roll the dice...'') g;
              g2 = cout (''Dice result: '' @ to_string rollValue @ endl) g1;
              currentPos = getPosition (players g2 currentPlayer)
          in if isValidMove currentPos rollValue (getBoardSize (gameBoard g2))
             then Some (move currentPlayer currentPos rollValue g2)
             else let g3 = cout (''Exact roll required to reach cell ''
                                 @ to_string (getBoardSize (gameBoard g2)) @ ''.'' @ endl) g2
                  in Some (g3\<lparr>turnQueue := tl (turnQueue g3) @ [currentPlayer]\<rparr>))"

text \<open>
  The loop \<^verbatim>\<open>while(!isGameOver)\<close>, run on the rolls given. The result is the state when
  the loop exits, or, when the rolls run out first, the state in which the loop waits
  for the next roll; \<open>isGameOver\<close> of the result tells the two apart.
\<close>

fun play_loop :: "int32 list \<Rightarrow> SnakeAndLadderGame \<Rightarrow> SnakeAndLadderGame option" where
  "play_loop [] g = Some g"
| "play_loop (rollValue # rolls) g =
     (if isGameOver g then Some g
      else case turn rollValue g of
             None \<Rightarrow> None
           | Some g' \<Rightarrow> play_loop rolls g')"

text \<open>The states in which the loop condition is tested, in order.\<close>

fun play_states :: "int32 list \<Rightarrow> SnakeAndLadderGame \<Rightarrow> SnakeAndLadderGame list" where
  "play_states [] g = [g]"
| "play_states (rollValue # rolls) g =
     g # (if isGameOver g then []
          else case turn rollValue g of
                 None \<Rightarrow> []
               | Some g' \<Rightarrow> play_states rolls g')"

definition play :: "int32 list \<Rightarrow> SnakeAndLadderGame \<Rightarrow> SnakeAndLadderGame option" where
  "play rolls g =
     (if length (turnQueue g) < 2
      then Some (cout (''A minimum of 2 players is required to start the game.'' @ endl) g)
      else let g1 = notify ''Game initiated.'' g;
               g2 = g1\<lparr>events := events g1 @ display (gameBoard g1)\<rparr>
           in play_loop rolls g2)"

text \<open>
  The win event of a turn: the move of the front player is valid and the position it
  resolves to passes \<open>checkWinCondition\<close>.
\<close>

definition win_event :: "int32 \<Rightarrow> SnakeAndLadderGame \<Rightarrow> bool" where
  "win_event rollValue g =
     (case turnQueue g of
        [] \<Rightarrow> False
      | currentPlayer # rest \<Rightarrow>
          isValidMove (getPosition (players g currentPlayer)) rollValue (getBoardSize (gameBoard g))
          \<and> checkWinCondition
              (calculateNewPosition (getPosition (players g currentPlayer)) rollValue (gameBoard g))
              (getBoardSize (gameBoard g)))"

subsection \<open>An example game\<close>

text \<open>
  The game built by \<^verbatim>\<open>createStandardGame\<close>, with two players and one observer
  registered: Ann, the player object at address 0, stands on the given cell and moves
  first; Bob, at address 1, stands on cell 0; the observer has address 2.
\<close>

definition demo_players :: "int32 \<Rightarrow> addr \<Rightarrow> SnakeAndLadderPlayer" where
  "demo_players pos =
     (\<lambda>a. new_SnakeAndLadderPlayer (of_nat a + 1) ''Bob'')
       (0 := setPosition (new_SnakeAndLadderPlayer 1 ''Ann'') pos)"

definition createStandardGame :: "(addr \<Rightarrow> SnakeAndLadderPlayer) \<Rightarrow> SnakeAndLadderGame" where
  "createStandardGame store =
     (let board = new_Board 10;
          board' = fst (setupBoard board StandardBoardSetupStrategy_setupBoard)
      in new_SnakeAndLadderGame board' store)"

definition demo_game :: "int32 \<Rightarrow> SnakeAndLadderGame" where
  "demo_game pos = addObserver (addPlayer (addPlayer (createStandardGame (demo_players pos)) 0) 1) 2"

section \<open>Properties of the board\<close>

lemma getEntity_entityMap: "getEntity b position = entityMap b position"
  by (simp add: getEntity_def)

lemma canAddEntity_getEntity: "canAddEntity b position \<longleftrightarrow> getEntity b position = None"
  by (simp add: canAddEntity_def getEntity_def)

text \<open>
  C5. \<open>addBoardEntity\<close> changes the board if and only if \<open>canAddEntity\<close> holds for the
  entity's start cell. When it holds, the entity is appended to the entity list and
  stored in the map under its start cell, so that \<open>getEntity\<close> at that cell returns it.
  When it does not hold, the board returned is the board given. The function is total:
  it returns a board in both cases and has no failure result.
\<close>

theorem addBoardEntity_iff_canAddEntity:
  "(addBoardEntity b e \<noteq> b \<longleftrightarrow> canAddEntity b (getStart e))
   \<and> (canAddEntity b (getStart e) \<longrightarrow>
        getEntity (addBoardEntity b e) (getStart e) = Some e
        \<and> entityMap (addBoardEntity b e) = (entityMap b)(getStart e \<mapsto> e)
        \<and> entitiesList (addBoardEntity b e) = entitiesList b @ [e]
        \<and> cellCount (addBoardEntity b e) = cellCount b)
   \<and> (\<not> canAddEntity b (getStart e) \<longrightarrow>
        addBoardEntity b e = b
        \<and> entityMap (addBoardEntity b e) = entityMap b
        \<and> getEntity (addBoardEntity b e) (getStart e) = getEntity b (getStart e))"
proof -
  have changed: "addBoardEntity b e \<noteq> b" if free: "canAddEntity b (getStart e)"
  proof
    assume "addBoardEntity b e = b"
    then have "entitiesList (addBoardEntity b e) = entitiesList b"
      by simp
    with free show False
      by (simp add: addBoardEntity_def)
  qed
  have same: "addBoardEntity b e = b" if "\<not> canAddEntity b (getStart e)"
    using that by (simp add: addBoardEntity_def)
  from changed same show ?thesis
    by (auto simp: addBoardEntity_def getEntity_def)
qed

text \<open>
  On an empty 10x10 board the snake from 62 to 19 is inserted; offering a ladder with
  the same start cell afterwards leaves the board as it is.
\<close>

theorem addBoardEntity_iff_canAddEntity_witness:
  "canAddEntity (new_Board 10) (getStart (Snake 62 19))
   \<and> addBoardEntity (new_Board 10) (Snake 62 19) \<noteq> new_Board 10
   \<and> getEntity (addBoardEntity (new_Board 10) (Snake 62 19)) 62 = Some (Snake 62 19)
   \<and> \<not> canAddEntity (addBoardEntity (new_Board 10) (Snake 62 19)) (getStart (Ladder 62 80))
   \<and> addBoardEntity (addBoardEntity (new_Board 10) (Snake 62 19)) (Ladder 62 80)
       = addBoardEntity (new_Board 10) (Snake 62 19)"
  using addBoardEntity_iff_canAddEntity [of "new_Board 10" "Snake 62 19"]
    addBoardEntity_iff_canAddEntity [of "addBoardEntity (new_Board 10) (Snake 62 19)" "Ladder 62 80"]
  by (simp add: canAddEntity_def new_Board_def getStart_def)

lemma entityMap_addBoardEntity:
  "entityMap (addBoardEntity b e) c =
     (case entityMap b c of
        Some x \<Rightarrow> Some x
      | None \<Rightarrow> if c = getStart e then Some e else None)"
  by (auto simp: addBoardEntity_def canAddEntity_def split: option.splits)

lemma cellCount_addBoardEntity [simp]: "cellCount (addBoardEntity b e) = cellCount b"
  by (simp add: addBoardEntity_def)

lemma cellCount_foldl_addBoardEntity [simp]: "cellCount (foldl addBoardEntity b es) = cellCount b"
  by (induction es arbitrary: b) simp_all

lemma entityMap_foldl_addBoardEntity:
  "entityMap (foldl addBoardEntity b es) c =
     (case entityMap b c of
        Some x \<Rightarrow> Some x
      | None \<Rightarrow> map_of (map (\<lambda>e. (getStart e, e)) es) c)"
proof (induction es arbitrary: b)
  case Nil
  show ?case by (simp split: option.splits)
next
  case (Cons e es)
  show ?case
    by (simp add: Cons.IH entityMap_addBoardEntity split: option.splits)
qed

lemma entitiesList_foldl_addBoardEntity:
  "distinct (map getStart es) \<Longrightarrow>
   entitiesList (foldl addBoardEntity b es) =
     entitiesList b @ filter (\<lambda>e. canAddEntity b (getStart e)) es"
proof (induction es arbitrary: b)
  case Nil
  show ?case by simp
next
  case (Cons e es)
  from Cons.prems have d: "distinct (map getStart es)" and n: "getStart e \<notin> getStart ` set es"
    by simp_all
  have same: "filter (\<lambda>x. canAddEntity (addBoardEntity b e) (getStart x)) es
              = filter (\<lambda>x. canAddEntity b (getStart x)) es"
  proof (rule filter_cong [OF refl])
    fix x assume "x \<in> set es"
    with n have "getStart x \<noteq> getStart e" by (metis imageI)
    then show "canAddEntity (addBoardEntity b e) (getStart x) = canAddEntity b (getStart x)"
      by (simp add: canAddEntity_def entityMap_addBoardEntity split: option.splits)
  qed
  show ?case
    by (simp add: Cons.IH [OF d] same) (simp add: addBoardEntity_def)
qed

lemma fst_foldl_add_new:
  "fst (foldl add_new st ms) = foldl addBoardEntity (fst st) (map fst ms)"
  by (induction ms arbitrary: st) (simp_all add: add_new_def)

lemma snd_foldl_add_new:
  "snd (foldl add_new st ms) = snd st @ concat (map snd ms)"
  by (induction ms arbitrary: st) (simp_all add: add_new_def)

lemma standard_setup_100:
  "getBoardSize b = 100 \<Longrightarrow>
   StandardBoardSetupStrategy_setupBoard b = (foldl addBoardEntity b standard_layout, [])"
  by (simp add: StandardBoardSetupStrategy_setupBoard_def prod_eq_iff fst_foldl_add_new
      snd_foldl_add_new new_Snake_def new_Ladder_def standard_layout_def del: foldl.simps)

lemma distinct_standard_layout: "distinct (map getStart standard_layout)"
  by (simp add: standard_layout_def getStart_def)

lemma occupied_call:
  "entityMap b c = Some e \<Longrightarrow> entityMap (call b k) c = Some e"
  by (cases k) (simp_all add: entityMap_addBoardEntity)

lemma occupied_calls:
  "entityMap b c = Some e \<Longrightarrow> entityMap (foldl call b ks) c = Some e"
  by (induction ks arbitrary: b) (simp_all add: occupied_call)

lemma occupied_standard_setup:
  "entityMap b c = Some e \<Longrightarrow>
   entityMap (fst (StandardBoardSetupStrategy_setupBoard b)) c = Some e"
  by (cases "getBoardSize b = 100")
     (simp_all add: standard_setup_100 entityMap_foldl_addBoardEntity,
      simp add: StandardBoardSetupStrategy_setupBoard_def)

text \<open>
  C6. After \<open>addBoardEntity\<close> has inserted an entity at a free cell, \<open>canAddEntity\<close> is
  false for that cell, and it stays false, with the same entity in the cell, after any
  further sequence of calls of the board's member functions, and after the standard
  setup strategy has been run on the board. The class has no member function that
  removes an entity.
\<close>

theorem occupied_cell_is_write_once:
  assumes "canAddEntity b (getStart e)"
  shows "\<not> canAddEntity (addBoardEntity b e) (getStart e)
    \<and> (\<forall>ks. \<not> canAddEntity (foldl call (addBoardEntity b e) ks) (getStart e)
            \<and> getEntity (foldl call (addBoardEntity b e) ks) (getStart e) = Some e)
    \<and> \<not> canAddEntity (fst (setupBoard (addBoardEntity b e) StandardBoardSetupStrategy_setupBoard))
          (getStart e)"
proof -
  from assms have placed: "entityMap (addBoardEntity b e) (getStart e) = Some e"
    by (simp add: canAddEntity_def entityMap_addBoardEntity)
  show ?thesis
    using occupied_calls [OF placed] occupied_standard_setup [OF placed] placed
    by (simp add: canAddEntity_def getEntity_def setupBoard_def)
qed

text \<open>
  A snake placed at 62 on an empty board survives two later attempts to place another
  entity at 62.
\<close>

theorem occupied_cell_is_write_once_witness:
  "canAddEntity (new_Board 10) (getStart (Snake 62 19))
   \<and> \<not> canAddEntity (addBoardEntity (new_Board 10) (Snake 62 19)) 62
   \<and> \<not> canAddEntity
         (foldl call (addBoardEntity (new_Board 10) (Snake 62 19))
            [AddBoardEntity (Ladder 62 80), GetEntity 62, Display, AddBoardEntity (Snake 62 3)]) 62
   \<and> getEntity
         (foldl call (addBoardEntity (new_Board 10) (Snake 62 19))
            [AddBoardEntity (Ladder 62 80), GetEntity 62, Display, AddBoardEntity (Snake 62 3)]) 62
       = Some (Snake 62 19)"
proof -
  have free: "canAddEntity (new_Board 10) (getStart (Snake 62 19))"
    by (simp add: canAddEntity_def new_Board_def)
  from occupied_cell_is_write_once [OF free] free show ?thesis
    by (simp add: getStart_def del: foldl.simps)
qed

text \<open>
  C7. The constructor of a snake whose end is not below its start, and of a ladder
  whose end is not above its start (as signed values), prints one line and returns the entity with the
  start and end it was given. \<open>addBoardEntity\<close> does not look at the kind or the
  direction of an entity: on a board where the start cell is free the malformed entity
  is inserted, and \<open>getEntity\<close> returns it.
\<close>

theorem malformed_entity_is_reported_and_kept:
  "(sint end' \<ge> sint start \<longrightarrow>
      new_Snake start end' =
        (Snake start end',
         [Cout (''Invalid snake configuration: endIndex must be less than startIndex.'' @ endl)])
      \<and> getStart (fst (new_Snake start end')) = start
      \<and> getEnd (fst (new_Snake start end')) = end'
      \<and> (canAddEntity b start \<longrightarrow>
           getEntity (addBoardEntity b (fst (new_Snake start end'))) start = Some (Snake start end')))
   \<and> (sint end' \<le> sint start \<longrightarrow>
      new_Ladder start end' =
        (Ladder start end',
         [Cout (''Invalid ladder configuration: endIndex must be greater than startIndex.'' @ endl)])
      \<and> getStart (fst (new_Ladder start end')) = start
      \<and> getEnd (fst (new_Ladder start end')) = end'
      \<and> (canAddEntity b start \<longrightarrow>
           getEntity (addBoardEntity b (fst (new_Ladder start end'))) start = Some (Ladder start end')))"
  by (simp add: new_Snake_def new_Ladder_def getStart_def getEnd_def getEntity_def
      entityMap_addBoardEntity canAddEntity_def)

text \<open>
  A snake from 20 up to 30 and a ladder from 40 to 40 are reported, built and placed;
  a player at 14 who rolls 6 is carried by that snake to 30.
\<close>

theorem malformed_entity_is_reported_and_kept_witness:
  "sint (30::int32) \<ge> sint (20::int32)
   \<and> snd (new_Snake 20 30) =
       [Cout (''Invalid snake configuration: endIndex must be less than startIndex.'' @ endl)]
   \<and> canAddEntity (new_Board 10) 20
   \<and> getEntity (addBoardEntity (new_Board 10) (fst (new_Snake 20 30))) 20 = Some (Snake 20 30)
   \<and> calculateNewPosition 14 6 (addBoardEntity (new_Board 10) (fst (new_Snake 20 30))) = 30
   \<and> sint (40::int32) \<le> sint (40::int32)
   \<and> snd (new_Ladder 40 40) =
       [Cout (''Invalid ladder configuration: endIndex must be greater than startIndex.'' @ endl)]
   \<and> getEntity (addBoardEntity (new_Board 10) (fst (new_Ladder 40 40))) 40 = Some (Ladder 40 40)"
  using malformed_entity_is_reported_and_kept [of 20 30 "new_Board 10"]
    malformed_entity_is_reported_and_kept [of 40 40 "new_Board 10"]
  by (simp add: canAddEntity_def new_Board_def calculateNewPosition_def getEntity_def
      entityMap_addBoardEntity getStart_def getEnd_def)

text \<open>
  C8. On a board whose size is not 100 the standard strategy prints one line and
  returns the board as it was. On a board of size 100 it prints nothing and offers the
  21 entities of the canonical layout to \<open>addBoardEntity\<close> in order: a cell that was
  occupied keeps its entity, a free cell that starts a canonical entity receives it, and
  every other cell stays free. On an empty board of size 100 the result holds exactly
  the canonical layout.
\<close>

theorem standard_setup_only_on_100_cells:
  "(getBoardSize b \<noteq> 100 \<longrightarrow>
      setupBoard b StandardBoardSetupStrategy_setupBoard =
        (b, [Cout (''Standard configuration supports only a 10x10 board (100 cells).'' @ endl)]))
   \<and> (getBoardSize b = 100 \<longrightarrow>
      snd (setupBoard b StandardBoardSetupStrategy_setupBoard) = []
      \<and> cellCount (fst (setupBoard b StandardBoardSetupStrategy_setupBoard)) = 100
      \<and> entitiesList (fst (setupBoard b StandardBoardSetupStrategy_setupBoard)) =
          entitiesList b @ filter (\<lambda>e. canAddEntity b (getStart e)) standard_layout
      \<and> (\<forall>c. getEntity (fst (setupBoard b StandardBoardSetupStrategy_setupBoard)) c =
            (case getEntity b c of
               Some x \<Rightarrow> Some x
             | None \<Rightarrow> map_of (map (\<lambda>e. (getStart e, e)) standard_layout) c)))
   \<and> (entitiesList b = [] \<and> entityMap b = Map.empty \<and> getBoardSize b = 100 \<longrightarrow>
      entitiesList (fst (setupBoard b StandardBoardSetupStrategy_setupBoard)) = standard_layout
      \<and> (\<forall>e \<in> set standard_layout.
            getEntity (fst (setupBoard b StandardBoardSetupStrategy_setupBoard)) (getStart e) = Some e))"
proof (intro conjI impI)
  assume "getBoardSize b \<noteq> 100"
  then show "setupBoard b StandardBoardSetupStrategy_setupBoard =
        (b, [Cout (''Standard configuration supports only a 10x10 board (100 cells).'' @ endl)])"
    by (simp add: setupBoard_def StandardBoardSetupStrategy_setupBoard_def)
next
  assume s: "getBoardSize b = 100"
  show "snd (setupBoard b StandardBoardSetupStrategy_setupBoard) = []"
    by (simp add: setupBoard_def standard_setup_100 [OF s])
  from s show "cellCount (fst (setupBoard b StandardBoardSetupStrategy_setupBoard)) = 100"
    by (simp add: setupBoard_def standard_setup_100 [OF s] getBoardSize_def)
  show "entitiesList (fst (setupBoard b StandardBoardSetupStrategy_setupBoard)) =
          entitiesList b @ filter (\<lambda>e. canAddEntity b (getStart e)) standard_layout"
    by (simp add: setupBoard_def standard_setup_100 [OF s]
        entitiesList_foldl_addBoardEntity [OF distinct_standard_layout])
  show "\<forall>c. getEntity (fst (setupBoard b StandardBoardSetupStrategy_setupBoard)) c =
            (case getEntity b c of
               Some x \<Rightarrow> Some x
             | None \<Rightarrow> map_of (map (\<lambda>e. (getStart e, e)) standard_layout) c)"
    by (simp add: setupBoard_def standard_setup_100 [OF s] getEntity_def
        entityMap_foldl_addBoardEntity)
next
  assume e: "entitiesList b = [] \<and> entityMap b = Map.empty \<and> getBoardSize b = 100"
  then have s: "getBoardSize b = 100" by simp
  from e show "entitiesList (fst (setupBoard b StandardBoardSetupStrategy_setupBoard)) = standard_layout"
    by (simp add: setupBoard_def standard_setup_100 [OF s]
        entitiesList_foldl_addBoardEntity [OF distinct_standard_layout] canAddEntity_def)
  from e show "\<forall>e \<in> set standard_layout.
            getEntity (fst (setupBoard b StandardBoardSetupStrategy_setupBoard)) (getStart e) = Some e"
    by (simp add: setupBoard_def standard_setup_100 [OF s] getEntity_def
        entityMap_foldl_addBoardEntity)
       (simp add: standard_layout_def getStart_def)
qed

text \<open>
  A 9x9 board is left as it was; an empty 10x10 board receives the layout, with the
  snake from 62 to 19 at cell 62 and nothing at cell 63.
\<close>

theorem standard_setup_only_on_100_cells_witness:
  "getBoardSize (new_Board 9) \<noteq> 100
   \<and> setupBoard (new_Board 9) StandardBoardSetupStrategy_setupBoard =
       (new_Board 9, [Cout (''Standard configuration supports only a 10x10 board (100 cells).'' @ endl)])
   \<and> getBoardSize (new_Board 10) = 100
   \<and> entitiesList (new_Board 10) = [] \<and> entityMap (new_Board 10) = Map.empty
   \<and> entitiesList (fst (setupBoard (new_Board 10) StandardBoardSetupStrategy_setupBoard)) = standard_layout
   \<and> snd (setupBoard (new_Board 10) StandardBoardSetupStrategy_setupBoard) = []
   \<and> Snake 62 19 \<in> set standard_layout
   \<and> getEntity (fst (setupBoard (new_Board 10) StandardBoardSetupStrategy_setupBoard)) 62 = Some (Snake 62 19)
   \<and> getEntity (fst (setupBoard (new_Board 10) StandardBoardSetupStrategy_setupBoard)) 63 = None"
proof -
  have n9: "getBoardSize (new_Board 9) \<noteq> 100" and n10: "getBoardSize (new_Board 10) = 100"
    and fresh: "entitiesList (new_Board 10) = []" "entityMap (new_Board 10) = Map.empty"
    by (simp_all add: getBoardSize_def new_Board_def)
  have mem: "Snake 62 19 \<in> set standard_layout"
    by (simp add: standard_layout_def)
  have look: "map_of (map (\<lambda>e. (getStart e, e)) standard_layout) 63 = None"
    by (simp add: standard_layout_def getStart_def)
  have g: "getEntity (new_Board 10) 63 = None"
    by (simp add: getEntity_def new_Board_def)
  from standard_setup_only_on_100_cells [of "new_Board 9"]
    standard_setup_only_on_100_cells [of "new_Board 10"] n9 n10 fresh mem look g
  show ?thesis
    by (auto simp: getStart_def)
qed

section \<open>Properties of the rules\<close>

text \<open>
  Where the sum of two values fits into 32 bits, the addition of the program is the
  addition of the integers; otherwise it wraps around, and \<open>isValidMove\<close> judges the
  wrapped sum.
\<close>

lemma sint_add_fits: "sum_fits a b \<Longrightarrow> sint (a + b) = sint a + sint b"
  by (simp add: sum_fits_def sint_word_ariths signed_take_bit_int_eq_self)

lemma isValidMove_fits:
  "sum_fits currentPos diceValue \<Longrightarrow>
   isValidMove currentPos diceValue boardSize \<longleftrightarrow> sint currentPos + sint diceValue \<le> sint boardSize"
  by (simp add: isValidMove_def sint_add_fits)

lemma overshoot_invalid:
  "sint (currentPos + diceValue) > sint boardSize
   \<or> sum_fits currentPos diceValue \<and> sint currentPos + sint diceValue > sint boardSize \<Longrightarrow>
   \<not> isValidMove currentPos diceValue boardSize"
  by (auto simp: isValidMove_def sint_add_fits)

lemma isValidMove_wraps: "\<not> sum_fits 2147483647 1 \<and> isValidMove 2147483647 1 100"
  by (simp add: isValidMove_def sum_fits_def)

text \<open>
  C1. \<open>calculateNewPosition\<close> adds the roll to the current position, with the 32-bit
  addition of the program, and looks that cell up once: with an entity there, the result
  is the entity's end; with none, the result is the cell itself. The result is not
  looked up again: when the end of the entity is itself the start of another entity, the
  result is still the end of the first. Where the sum of the two values fits into 32
  bits, the cell looked up is their sum as integers.
\<close>

theorem calculateNewPosition_single_jump:
  "calculateNewPosition currentPos roll board =
     (case getEntity board (currentPos + roll) of
        Some entity \<Rightarrow> getEnd entity
      | None \<Rightarrow> currentPos + roll)
   \<and> (\<forall>entity other.
        getEntity board (currentPos + roll) = Some entity
        \<and> getEntity board (getEnd entity) = Some other
        \<longrightarrow> calculateNewPosition currentPos roll board = getEnd entity)
   \<and> (sum_fits currentPos roll \<longrightarrow>
        sint (currentPos + roll) = sint currentPos + sint roll
        \<and> (getEntity board (currentPos + roll) = None \<longrightarrow>
             sint (calculateNewPosition currentPos roll board) = sint currentPos + sint roll))"
  by (simp add: calculateNewPosition_def Let_def sint_add_fits)

text \<open>
  A ladder from 2 to 38 and a snake from 38 down to 5: a player at 0 who rolls 2 ends
  at 38, not at 5.
\<close>

theorem calculateNewPosition_single_jump_witness:
  "sum_fits 0 2
   \<and> sint (0 + 2 :: int32) = 2
   \<and> getEntity (addBoardEntity (addBoardEntity (new_Board 10) (Ladder 2 38)) (Snake 38 5)) (0 + 2)
     = Some (Ladder 2 38)
   \<and> getEntity (addBoardEntity (addBoardEntity (new_Board 10) (Ladder 2 38)) (Snake 38 5))
        (getEnd (Ladder 2 38)) = Some (Snake 38 5)
   \<and> calculateNewPosition 0 2
        (addBoardEntity (addBoardEntity (new_Board 10) (Ladder 2 38)) (Snake 38 5)) = 38"
  using calculateNewPosition_single_jump
    [of 0 2 "addBoardEntity (addBoardEntity (new_Board 10) (Ladder 2 38)) (Snake 38 5)"]
  by (simp add: addBoardEntity_def canAddEntity_def getEntity_def new_Board_def
      getStart_def getEnd_def sum_fits_def)

section \<open>Properties of the game engine\<close>

subsection \<open>What a turn does to each field\<close>

lemma gameBoard_move [simp]: "gameBoard (move p pos r g) = gameBoard g"
  by (simp add: move_def Let_def notify_def cout_def displayPlayerPositions_def split: option.splits)

lemma subscriberList_move [simp]: "subscriberList (move p pos r g) = subscriberList g"
  by (simp add: move_def Let_def notify_def cout_def displayPlayerPositions_def split: option.splits)

lemma isGameOver_move:
  "isGameOver (move p pos r g) \<longleftrightarrow>
     isGameOver g \<or> checkWinCondition (calculateNewPosition pos r (gameBoard g)) (getBoardSize (gameBoard g))"
  by (simp add: move_def Let_def notify_def cout_def displayPlayerPositions_def split: option.splits)

lemma turnQueue_move:
  "turnQueue (move p pos r g) =
     (if checkWinCondition (calculateNewPosition pos r (gameBoard g)) (getBoardSize (gameBoard g))
      then turnQueue g else tl (turnQueue g) @ [p])"
  by (simp add: move_def Let_def notify_def cout_def displayPlayerPositions_def split: option.splits)

lemma players_move:
  "players (move p pos r g) =
     (players g)(p := (players g p)
        \<lparr>currentPosition := calculateNewPosition pos r (gameBoard g),
         winCount := (if checkWinCondition (calculateNewPosition pos r (gameBoard g)) (getBoardSize (gameBoard g))
                      then winCount (players g p) + 1 else winCount (players g p))\<rparr>)"
  by (simp add: move_def Let_def notify_def cout_def displayPlayerPositions_def setPosition_def
      incrementScore_def split: option.splits)

lemma turn_Nil: "turnQueue g = [] \<Longrightarrow> turn r g = None"
  by (simp add: turn_def)

lemma turn_valid:
  "turnQueue g = p # rest \<Longrightarrow>
   isValidMove (getPosition (players g p)) r (getBoardSize (gameBoard g)) \<Longrightarrow>
   turn r g = Some (move p (getPosition (players g p)) r
     (cout (''Dice result: '' @ to_string r @ endl)
        (cout (endl @ getName (players g p) @ '''s turn. Press Enter to roll the dice...'') g)))"
  by (simp add: turn_def Let_def cout_def)

lemma turn_overshoot:
  "turnQueue g = p # rest \<Longrightarrow>
   \<not> isValidMove (getPosition (players g p)) r (getBoardSize (gameBoard g)) \<Longrightarrow>
   turn r g = Some (g\<lparr>turnQueue := rest @ [p],
      events := events g @
        [Cout (endl @ getName (players g p) @ '''s turn. Press Enter to roll the dice...''),
         Cout (''Dice result: '' @ to_string r @ endl),
         Cout (''Exact roll required to reach cell '' @ to_string (getBoardSize (gameBoard g)) @ ''.'' @ endl)]\<rparr>)"
  by (simp add: turn_def Let_def cout_def)

text \<open>
  One turn, field by field, apart from the output.
\<close>

lemma turn_fields:
  assumes q: "turnQueue g = p # rest"
  shows "\<exists>g'. turn r g = Some g'
    \<and> gameBoard g' = gameBoard g
    \<and> subscriberList g' = subscriberList g
    \<and> isGameOver g' = (isGameOver g \<or> win_event r g)
    \<and> turnQueue g' = (if win_event r g then p # rest else rest @ [p])
    \<and> players g' =
        (if isValidMove (getPosition (players g p)) r (getBoardSize (gameBoard g))
         then (players g)(p := (players g p)
                \<lparr>currentPosition := calculateNewPosition (getPosition (players g p)) r (gameBoard g),
                 winCount := (if win_event r g then winCount (players g p) + 1
                              else winCount (players g p))\<rparr>)
         else players g)"
proof (cases "isValidMove (getPosition (players g p)) r (getBoardSize (gameBoard g))")
  case True
  with q show ?thesis
    by (simp add: turn_valid [OF q True] win_event_def isGameOver_move turnQueue_move
        players_move cout_def)
next
  case False
  with q show ?thesis
    by (simp add: turn_overshoot [OF q False] win_event_def)
qed

lemma notifications_append [simp]:
  "notifications (xs @ ys) = notifications xs @ notifications ys"
  by (induction xs rule: notifications.induct) simp_all

subsection \<open>The loop\<close>

lemma play_states_0 [simp]: "play_states rolls g ! 0 = g"
  by (cases rolls) simp_all

lemma play_states_step:
  "Suc i < length (play_states rolls g) \<Longrightarrow>
   \<not> isGameOver (play_states rolls g ! i)
   \<and> turn (rolls ! i) (play_states rolls g ! i) = Some (play_states rolls g ! Suc i)"
proof (induction rolls arbitrary: g i)
  case Nil
  then show ?case by simp
next
  case (Cons r rs)
  from Cons.prems have running: "\<not> isGameOver g"
    by (auto split: if_splits)
  with Cons.prems obtain g' where t: "turn r g = Some g'"
    by (auto split: option.splits)
  with running have unfold: "play_states (r # rs) g = g # play_states rs g'"
    by simp
  show ?case
  proof (cases i)
    case 0
    with running t unfold show ?thesis by simp
  next
    case (Suc j)
    with Cons.prems unfold have "Suc j < length (play_states rs g')" by simp
    from Cons.IH [OF this] Suc unfold show ?thesis by simp
  qed
qed

lemma play_loop_last:
  "turnQueue g \<noteq> [] \<Longrightarrow> play_loop rolls g = Some (last (play_states rolls g))"
proof (induction rolls arbitrary: g)
  case Nil
  show ?case by simp
next
  case (Cons r rs)
  from Cons.prems obtain p rest where q: "turnQueue g = p # rest"
    by (cases "turnQueue g") auto
  from turn_fields [OF q, of r] obtain g' where
    t: "turn r g = Some g'" and q': "turnQueue g' = (if win_event r g then p # rest else rest @ [p])"
    by blast
  from q' have "turnQueue g' \<noteq> []" by (simp split: if_splits)
  from Cons.IH [OF this] t show ?case
    by (cases rs) simp_all
qed

lemma play_loop_over: "isGameOver g \<Longrightarrow> play_loop rolls g = Some g"
  by (cases rolls) simp_all

lemma play_states_over: "isGameOver g \<Longrightarrow> play_states rolls g = [g]"
  by (cases rolls) simp_all

subsection \<open>The example game\<close>

lemma demo_game_fields:
  "turnQueue (demo_game pos) = [0, 1]"
  "subscriberList (demo_game pos) = [2]"
  "isGameOver (demo_game pos) = False"
  "events (demo_game pos) = []"
  "players (demo_game pos) = demo_players pos"
  by (simp_all add: demo_game_def createStandardGame_def new_SnakeAndLadderGame_def addPlayer_def
      addObserver_def Let_def)

lemma demo_gameBoard:
  "gameBoard (demo_game pos) = foldl addBoardEntity (new_Board 10) standard_layout"
  by (simp add: demo_game_def createStandardGame_def new_SnakeAndLadderGame_def addPlayer_def
      addObserver_def setupBoard_def standard_setup_100 getBoardSize_def new_Board_def Let_def)

lemma demo_board:
  "getBoardSize (gameBoard (demo_game pos)) = 100"
  "getEntity (gameBoard (demo_game pos)) c = map_of (map (\<lambda>e. (getStart e, e)) standard_layout) c"
  by (simp_all add: demo_gameBoard getBoardSize_def getEntity_def entityMap_foldl_addBoardEntity)
     (simp_all add: new_Board_def)

lemma demo_players_simps:
  "getPosition (demo_players pos 0) = pos"
  "getName (demo_players pos 0) = ''Ann''"
  "getScore (demo_players pos 0) = 0"
  "getPosition (demo_players pos (Suc 0)) = 0"
  "getName (demo_players pos (Suc 0)) = ''Bob''"
  by (simp_all add: demo_players_def getPosition_def getName_def getScore_def setPosition_def
      new_SnakeAndLadderPlayer_def)

lemma demo_win_event: "win_event 2 (demo_game 98)"
  by (simp add: win_event_def demo_game_fields demo_board demo_players_simps isValidMove_def
      calculateNewPosition_def checkWinCondition_def Let_def)
     (simp add: standard_layout_def getStart_def)

lemma demo_snake_62: "calculateNewPosition 55 7 (gameBoard (demo_game pos)) = 19"
  by (simp add: calculateNewPosition_def demo_board Let_def)
     (simp add: standard_layout_def getStart_def getEnd_def)

lemma demo_no_win_event: "\<not> win_event 7 (demo_game 55)"
  by (simp add: win_event_def demo_game_fields demo_board demo_players_simps demo_snake_62
      checkWinCondition_def)

lemma solo_game_fields:
  "turnQueue (addPlayer (createStandardGame store) a) = [a]"
  "isGameOver (addPlayer (createStandardGame store) a) = False"
  "players (addPlayer (createStandardGame store) a) = store"
  "events (addPlayer (createStandardGame store) a) = []"
  by (simp_all add: addPlayer_def createStandardGame_def new_SnakeAndLadderGame_def Let_def)

text \<open>
  At the largest \<^verbatim>\<open>int\<close> the sum wraps around: Ann at 2147483647 who rolls 1 makes a
  valid move and lands on -2147483648.
\<close>

lemma demo_wrapped_move:
  "isValidMove (getPosition (players (demo_game 2147483647) 0)) 1
     (getBoardSize (gameBoard (demo_game 2147483647)))
   \<and> map_option (sint \<circ> getPosition \<circ> (\<lambda>g. players g 0)) (turn 1 (demo_game 2147483647))
       = Some (- 2147483648)"
proof -
  have q: "turnQueue (demo_game 2147483647) = [0, 1]"
    by (simp add: demo_game_fields)
  have valid: "isValidMove (getPosition (players (demo_game 2147483647) 0)) 1
     (getBoardSize (gameBoard (demo_game 2147483647)))"
    by (simp add: demo_game_fields demo_board demo_players_simps isValidMove_def)
  have free: "getEntity (gameBoard (demo_game 2147483647)) (2147483647 + 1) = None"
    by (simp add: demo_board) (simp add: standard_layout_def getStart_def)
  have "map_option (sint \<circ> getPosition \<circ> (\<lambda>g. players g 0)) (turn 1 (demo_game 2147483647))
       = Some (- 2147483648)"
    using free demo_players_simps(1) [of 2147483647]
    by (simp add: turn_valid [OF q valid] players_move demo_game_fields
        cout_def getPosition_def calculateNewPosition_def Let_def)
  with valid show ?thesis by simp
qed

text \<open>
  Ann at 98 overshoots with a 3, Bob moves from 0 to 1, Ann reaches 100 with a 2: the
  loop tests its condition four times and the rolls 5 and 6 are never used.
\<close>

lemma demo_run:
  "map isGameOver (play_states [3, 1, 2, 5, 6] (demo_game 98)) = [False, False, False, True]"
  by (simp add: turn_def move_def Let_def cout_def notify_def displayPlayerPositions_def
       demo_game_fields demo_board demo_players_simps isValidMove_def calculateNewPosition_def
       checkWinCondition_def getPosition_def setPosition_def incrementScore_def getName_def
       demo_players_def new_SnakeAndLadderPlayer_def standard_layout_def getStart_def getEnd_def)

subsection \<open>Winning\<close>

text \<open>
  C2. \<open>checkWinCondition\<close> holds exactly when the position equals the board size. In a
  turn whose roll carries the front player beyond the board size, \<open>isValidMove\<close> fails,
  there is no win event, and the turn leaves \<open>isGameOver\<close> and every player object as
  they were. Beyond the board size means that the 32-bit sum the program computes
  exceeds the size, or that the sum of the two values fits into 32 bits and exceeds the
  size. In a turn with a win event the move was valid, the game is over afterwards, the
  front player stands on the last cell and that player's win count has grown by one.
\<close>

theorem win_exactly_at_boardSize:
  "(checkWinCondition position boardSize \<longleftrightarrow> position = boardSize)
   \<and> (turnQueue g = p # rest
        \<and> (sint (getPosition (players g p) + roll) > sint (getBoardSize (gameBoard g))
             \<or> sum_fits (getPosition (players g p)) roll
               \<and> sint (getPosition (players g p)) + sint roll > sint (getBoardSize (gameBoard g))) \<longrightarrow>
        \<not> isValidMove (getPosition (players g p)) roll (getBoardSize (gameBoard g))
        \<and> \<not> win_event roll g
        \<and> (\<exists>g'. turn roll g = Some g' \<and> isGameOver g' = isGameOver g \<and> players g' = players g))
   \<and> (turnQueue g = p # rest \<and> win_event roll g \<longrightarrow>
        sint (getPosition (players g p) + roll) \<le> sint (getBoardSize (gameBoard g))
        \<and> (\<exists>g'. turn roll g = Some g' \<and> isGameOver g'
                 \<and> getPosition (players g' p) = getBoardSize (gameBoard g)
                 \<and> getScore (players g' p) = getScore (players g p) + 1))"
proof (intro conjI impI)
  show "checkWinCondition position boardSize \<longleftrightarrow> position = boardSize"
    by (simp add: checkWinCondition_def)
next
  assume a: "turnQueue g = p # rest
        \<and> (sint (getPosition (players g p) + roll) > sint (getBoardSize (gameBoard g))
             \<or> sum_fits (getPosition (players g p)) roll
               \<and> sint (getPosition (players g p)) + sint roll > sint (getBoardSize (gameBoard g)))"
  then have q: "turnQueue g = p # rest" by simp
  from a have "sint (getPosition (players g p) + roll) > sint (getBoardSize (gameBoard g))
      \<or> sum_fits (getPosition (players g p)) roll
        \<and> sint (getPosition (players g p)) + sint roll > sint (getBoardSize (gameBoard g))"
    by simp
  then show invalid: "\<not> isValidMove (getPosition (players g p)) roll (getBoardSize (gameBoard g))"
    by (rule overshoot_invalid)
  with q show nowin: "\<not> win_event roll g"
    by (simp add: win_event_def)
  from turn_fields [OF q, of roll] invalid nowin
  show "\<exists>g'. turn roll g = Some g' \<and> isGameOver g' = isGameOver g \<and> players g' = players g"
    by auto
next
  assume a: "turnQueue g = p # rest \<and> win_event roll g"
  then have q: "turnQueue g = p # rest" and w: "win_event roll g" by simp_all
  from q w have valid: "isValidMove (getPosition (players g p)) roll (getBoardSize (gameBoard g))"
    and at_end: "calculateNewPosition (getPosition (players g p)) roll (gameBoard g) = getBoardSize (gameBoard g)"
    by (simp_all add: win_event_def checkWinCondition_def)
  from valid show "sint (getPosition (players g p) + roll) \<le> sint (getBoardSize (gameBoard g))"
    by (simp add: isValidMove_def)
  from turn_fields [OF q, of roll] valid w at_end
  show "\<exists>g'. turn roll g = Some g' \<and> isGameOver g'
                 \<and> getPosition (players g' p) = getBoardSize (gameBoard g)
                 \<and> getScore (players g' p) = getScore (players g p) + 1"
    by (auto simp: getPosition_def getScore_def)
qed

text \<open>
  Ann at 98 on the standard board: a roll of 3 is no win and leaves her at 98; a roll of
  2 wins, with her on 100 and one win counted.
\<close>

theorem win_exactly_at_boardSize_witness:
  "turnQueue (demo_game 98) = [0, 1]
   \<and> sum_fits (getPosition (players (demo_game 98) 0)) 3
   \<and> sint (getPosition (players (demo_game 98) 0)) + sint (3 :: int32)
       > sint (getBoardSize (gameBoard (demo_game 98)))
   \<and> sint (getPosition (players (demo_game 98) 0) + 3) > sint (getBoardSize (gameBoard (demo_game 98)))
   \<and> \<not> win_event 3 (demo_game 98)
   \<and> map_option isGameOver (turn 3 (demo_game 98)) = Some False
   \<and> map_option (getPosition \<circ> (\<lambda>g. players g 0)) (turn 3 (demo_game 98)) = Some 98
   \<and> win_event 2 (demo_game 98)
   \<and> map_option isGameOver (turn 2 (demo_game 98)) = Some True
   \<and> map_option (getPosition \<circ> (\<lambda>g. players g 0)) (turn 2 (demo_game 98)) = Some 100
   \<and> map_option (getScore \<circ> (\<lambda>g. players g 0)) (turn 2 (demo_game 98)) = Some 1"
proof -
  have q: "turnQueue (demo_game 98) = [0, 1]"
    by (simp add: demo_game_fields)
  have fits: "sum_fits (getPosition (players (demo_game 98) 0)) 3"
    and beyond: "sint (getPosition (players (demo_game 98) 0)) + sint (3 :: int32)
       > sint (getBoardSize (gameBoard (demo_game 98)))"
    and over: "sint (getPosition (players (demo_game 98) 0) + 3) > sint (getBoardSize (gameBoard (demo_game 98)))"
    by (simp_all add: demo_game_fields demo_board demo_players_simps sum_fits_def)
  from win_exactly_at_boardSize [of _ _ "demo_game 98" 0 "[1]" 3]
    win_exactly_at_boardSize [of _ _ "demo_game 98" 0 "[1]" 2] q fits beyond over demo_win_event
  show ?thesis
    by (auto simp: demo_game_fields demo_board demo_players_simps)
qed

subsection \<open>Overshooting\<close>

text \<open>
  C3, as stated, fails: in a turn that overshoots, no observer is called. With one
  observer registered, Ann at 98 and a roll of 3 on the standard board, the turn
  delivers no notification at all; the exact-roll message goes to \<^verbatim>\<open>cout\<close> only.
\<close>

theorem overshoot_is_not_notified:
  "subscriberList (demo_game 98) = [2]
   \<and> turnQueue (demo_game 98) = [0, 1]
   \<and> getPosition (players (demo_game 98) 0) = 98
   \<and> getBoardSize (gameBoard (demo_game 98)) = 100
   \<and> \<not> isValidMove 98 3 100
   \<and> events (demo_game 98) = []
   \<and> map_option (notifications \<circ> events) (turn 3 (demo_game 98)) = Some []"
proof -
  have q: "turnQueue (demo_game 98) = [0, 1]"
    by (simp add: demo_game_fields)
  have invalid: "\<not> isValidMove (getPosition (players (demo_game 98) 0)) 3
                    (getBoardSize (gameBoard (demo_game 98)))"
    by (simp add: demo_game_fields demo_board demo_players_simps isValidMove_def)
  from turn_overshoot [OF q invalid] show ?thesis
    by (simp add: demo_game_fields demo_board demo_players_simps isValidMove_def)
qed

text \<open>
  C3, amended. In a turn whose roll carries the front player beyond the board size (the
  32-bit sum the program computes exceeds the size, or the sum of the two values fits
  into 32 bits and exceeds the size), \<open>isValidMove\<close> fails and the engine calls no
  observer: it writes three lines to \<^verbatim>\<open>cout\<close>, the last being the exact-roll message. Every player object, the front
  player's position included, is unchanged, as are the board, the observer list and
  \<open>isGameOver\<close>; the only change to the engine is that the front player has moved to the
  back of the turn queue.
\<close>

theorem overshoot_forfeits_turn_on_console:
  assumes "turnQueue g = p # rest"
    and "sint (getPosition (players g p) + roll) > sint (getBoardSize (gameBoard g))
         \<or> sum_fits (getPosition (players g p)) roll
           \<and> sint (getPosition (players g p)) + sint roll > sint (getBoardSize (gameBoard g))"
  shows "\<not> isValidMove (getPosition (players g p)) roll (getBoardSize (gameBoard g))
    \<and> map_option (notifications \<circ> events) (turn roll g) = Some (notifications (events g))
    \<and> map_option players (turn roll g) = Some (players g)
    \<and> map_option turnQueue (turn roll g) = Some (rest @ [p])
    \<and> map_option isGameOver (turn roll g) = Some (isGameOver g)
    \<and> map_option gameBoard (turn roll g) = Some (gameBoard g)
    \<and> map_option subscriberList (turn roll g) = Some (subscriberList g)
    \<and> turn roll g = Some (g\<lparr>turnQueue := rest @ [p],
        events := events g @
          [Cout (endl @ getName (players g p) @ '''s turn. Press Enter to roll the dice...''),
           Cout (''Dice result: '' @ to_string roll @ endl),
           Cout (''Exact roll required to reach cell '' @ to_string (getBoardSize (gameBoard g))
                 @ ''.'' @ endl)]\<rparr>)"
proof -
  from assms(2) have invalid: "\<not> isValidMove (getPosition (players g p)) roll (getBoardSize (gameBoard g))"
    by (rule overshoot_invalid)
  from turn_overshoot [OF assms(1) invalid] invalid show ?thesis
    by simp
qed

text \<open>
  Ann at 98 rolls 3: the queue becomes Bob, Ann; nothing is delivered to the observer and
  no player object changes.
\<close>

theorem overshoot_forfeits_turn_on_console_witness:
  "turnQueue (demo_game 98) = [0, 1]
   \<and> sum_fits (getPosition (players (demo_game 98) 0)) 3
   \<and> sint (getPosition (players (demo_game 98) 0)) + sint (3 :: int32)
       > sint (getBoardSize (gameBoard (demo_game 98)))
   \<and> map_option turnQueue (turn 3 (demo_game 98)) = Some [1, 0]
   \<and> map_option (notifications \<circ> events) (turn 3 (demo_game 98)) = Some []
   \<and> map_option players (turn 3 (demo_game 98)) = Some (players (demo_game 98))"
proof -
  have q: "turnQueue (demo_game 98) = [0, 1]"
    by (simp add: demo_game_fields)
  have over: "sum_fits (getPosition (players (demo_game 98) 0)) 3
      \<and> sint (getPosition (players (demo_game 98) 0)) + sint (3 :: int32)
          > sint (getBoardSize (gameBoard (demo_game 98)))"
    by (simp add: demo_game_fields demo_board demo_players_simps sum_fits_def)
  note w = overshoot_forfeits_turn_on_console [OF q disjI2 [OF over]]
  from w have "map_option turnQueue (turn 3 (demo_game 98)) = Some ([1] @ [0])"
    by blast
  moreover from w have "map_option (notifications \<circ> events) (turn 3 (demo_game 98))
      = Some (notifications (events (demo_game 98)))"
    by blast
  moreover from w have "map_option players (turn 3 (demo_game 98)) = Some (players (demo_game 98))"
    by blast
  ultimately show ?thesis using q over
    by (simp add: demo_game_fields)
qed

subsection \<open>The end of the game\<close>

text \<open>
  C4. Along the states in which the loop tests its condition, every state that has a
  successor has \<open>isGameOver\<close> false and the successor is the result of one turn;
  \<open>isGameOver\<close> is true in the successor exactly when that turn was a win event. So a
  state with \<open>isGameOver\<close> true can only be the last one: the flag is set at most once
  in a run, at a win, and no turn follows. With a non-empty queue the loop returns that
  last state. Started in a state where the game is over, the loop returns the state as
  it is whatever rolls are offered, and \<open>play\<close> returns with the players, the queue and
  the flag unchanged.
\<close>

theorem gameOver_set_once_at_win_and_terminal:
  "(\<forall>i. Suc i < length (play_states rolls g) \<longrightarrow>
        \<not> isGameOver (play_states rolls g ! i)
        \<and> turn (rolls ! i) (play_states rolls g ! i) = Some (play_states rolls g ! Suc i)
        \<and> (isGameOver (play_states rolls g ! Suc i) \<longleftrightarrow> win_event (rolls ! i) (play_states rolls g ! i)))
   \<and> (\<forall>i < length (play_states rolls g).
        isGameOver (play_states rolls g ! i) \<longrightarrow> Suc i = length (play_states rolls g))
   \<and> (turnQueue g \<noteq> [] \<longrightarrow> play_loop rolls g = Some (last (play_states rolls g)))
   \<and> (isGameOver g \<longrightarrow>
        play_states rolls g = [g] \<and> play_loop rolls g = Some g
        \<and> (\<exists>g'. play rolls g = Some g' \<and> isGameOver g' \<and> players g' = players g
                 \<and> turnQueue g' = turnQueue g))"
proof (intro conjI allI impI)
  fix i assume i: "Suc i < length (play_states rolls g)"
  from play_states_step [OF i]
  show running: "\<not> isGameOver (play_states rolls g ! i)"
    and t: "turn (rolls ! i) (play_states rolls g ! i) = Some (play_states rolls g ! Suc i)"
    by simp_all
  from t obtain p rest where q: "turnQueue (play_states rolls g ! i) = p # rest"
    by (cases "turnQueue (play_states rolls g ! i)") (simp_all add: turn_Nil)
  from turn_fields [OF q, of "rolls ! i"] t running
  show "isGameOver (play_states rolls g ! Suc i) \<longleftrightarrow> win_event (rolls ! i) (play_states rolls g ! i)"
    by auto
next
  fix i assume i: "i < length (play_states rolls g)" and over: "isGameOver (play_states rolls g ! i)"
  show "Suc i = length (play_states rolls g)"
  proof (rule ccontr)
    assume "Suc i \<noteq> length (play_states rolls g)"
    with i have "Suc i < length (play_states rolls g)" by simp
    from play_states_step [OF this] over show False by simp
  qed
next
  assume "turnQueue g \<noteq> []"
  then show "play_loop rolls g = Some (last (play_states rolls g))"
    by (rule play_loop_last)
next
  assume over: "isGameOver g"
  then show "play_states rolls g = [g]" by (rule play_states_over)
  from over show "play_loop rolls g = Some g" by (rule play_loop_over)
  from over show "\<exists>g'. play rolls g = Some g' \<and> isGameOver g' \<and> players g' = players g
                 \<and> turnQueue g' = turnQueue g"
    by (simp add: play_def Let_def play_loop_over notify_def cout_def)
qed

text \<open>
  The run of the example: three turns, the third a win event; the loop returns with the
  game over, and run again on the rolls 5 and 6 from the final state it returns that
  state.
\<close>

theorem gameOver_set_once_at_win_and_terminal_witness:
  "map isGameOver (play_states [3, 1, 2, 5, 6] (demo_game 98)) = [False, False, False, True]
   \<and> Suc 2 < length (play_states [3, 1, 2, 5, 6] (demo_game 98))
   \<and> win_event ([3, 1, 2, 5, 6] ! 2) (play_states [3, 1, 2, 5, 6] (demo_game 98) ! 2)
   \<and> turnQueue (demo_game 98) \<noteq> []
   \<and> map_option isGameOver (play_loop [3, 1, 2, 5, 6] (demo_game 98)) = Some True
   \<and> isGameOver (play_states [3, 1, 2, 5, 6] (demo_game 98) ! 3)
   \<and> play_loop [5, 6] (play_states [3, 1, 2, 5, 6] (demo_game 98) ! 3)
       = Some (play_states [3, 1, 2, 5, 6] (demo_game 98) ! 3)"
proof -
  let ?S = "play_states [3, 1, 2, 5, 6] (demo_game 98)"
  have len: "length ?S = 4"
    using arg_cong [OF demo_run, of length] by simp
  then have three: "Suc 2 < length ?S"
    by simp
  have "isGameOver (?S ! 3) = map isGameOver ?S ! 3"
    using len by (simp del: play_states.simps)
  then have over: "isGameOver (?S ! 3)"
    by (simp add: demo_run del: play_states.simps)
  from len have "?S \<noteq> []"
    by auto
  then have "last ?S = ?S ! (length ?S - 1)"
    by (rule last_conv_nth)
  with len have last: "last ?S = ?S ! 3"
    by simp
  have q: "turnQueue (demo_game 98) \<noteq> []"
    by (simp add: demo_game_fields)
  note run = gameOver_set_once_at_win_and_terminal [of "[3, 1, 2, 5, 6]" "demo_game 98"]
  note stop = gameOver_set_once_at_win_and_terminal [of "[5, 6]" "?S ! 3"]
  from run three have "isGameOver (?S ! Suc 2) \<longleftrightarrow> win_event ([3, 1, 2, 5, 6] ! 2) (?S ! 2)"
    by blast
  with over have win: "win_event ([3, 1, 2, 5, 6] ! 2) (?S ! 2)"
    by (simp add: eval_nat_numeral del: play_states.simps)
  from run q have "play_loop [3, 1, 2, 5, 6] (demo_game 98) = Some (last ?S)"
    by blast
  with last over have fin: "map_option isGameOver (play_loop [3, 1, 2, 5, 6] (demo_game 98)) = Some True"
    by (simp del: play_states.simps play_loop.simps)
  from stop over have stay: "play_loop [5, 6] (?S ! 3) = Some (?S ! 3)"
    by blast
  from demo_run three win q fin over stay show ?thesis
    by blast
qed

subsection \<open>Too few players\<close>

text \<open>
  C9. With fewer than two players in the queue, \<open>play\<close> returns at once: it writes one
  line to \<^verbatim>\<open>cout\<close> and nothing else happens. The turn queue, every player object (so
  every position and win count), \<open>isGameOver\<close>, the board and the observer list are as
  before, no observer is called, and no roll is used.
\<close>

theorem refuses_to_start_below_two_players:
  assumes "length (turnQueue g) < 2"
  shows "map_option turnQueue (play rolls g) = Some (turnQueue g)
    \<and> map_option players (play rolls g) = Some (players g)
    \<and> map_option isGameOver (play rolls g) = Some (isGameOver g)
    \<and> map_option gameBoard (play rolls g) = Some (gameBoard g)
    \<and> map_option subscriberList (play rolls g) = Some (subscriberList g)
    \<and> map_option (notifications \<circ> events) (play rolls g) = Some (notifications (events g))
    \<and> play rolls g =
        Some (g\<lparr>events := events g @
                  [Cout (''A minimum of 2 players is required to start the game.'' @ endl)]\<rparr>)"
  using assms by (simp add: play_def cout_def)

text \<open>
  A standard game with Ann as its only player: after \<open>play\<close> the queue still holds Ann
  alone, the game is not over and the player objects are untouched.
\<close>

theorem refuses_to_start_below_two_players_witness:
  "length (turnQueue (addPlayer (createStandardGame (demo_players 0)) 0)) < 2
   \<and> map_option turnQueue (play [3, 4] (addPlayer (createStandardGame (demo_players 0)) 0)) = Some [0]
   \<and> map_option isGameOver (play [3, 4] (addPlayer (createStandardGame (demo_players 0)) 0)) = Some False
   \<and> map_option players (play [3, 4] (addPlayer (createStandardGame (demo_players 0)) 0))
       = Some (demo_players 0)
   \<and> map_option (notifications \<circ> events) (play [3, 4] (addPlayer (createStandardGame (demo_players 0)) 0))
       = Some []"
proof -
  have one: "length (turnQueue (addPlayer (createStandardGame (demo_players 0)) 0)) < 2"
    by (simp add: solo_game_fields)
  note w = refuses_to_start_below_two_players [OF one, of "[3, 4]"]
  from w have "map_option turnQueue (play [3, 4] (addPlayer (createStandardGame (demo_players 0)) 0))
      = Some (turnQueue (addPlayer (createStandardGame (demo_players 0)) 0))"
    by blast
  moreover from w have "map_option isGameOver (play [3, 4] (addPlayer (createStandardGame (demo_players 0)) 0))
      = Some (isGameOver (addPlayer (createStandardGame (demo_players 0)) 0))"
    by blast
  moreover from w have "map_option players (play [3, 4] (addPlayer (createStandardGame (demo_players 0)) 0))
      = Some (players (addPlayer (createStandardGame (demo_players 0)) 0))"
    by blast
  moreover from w have "map_option (notifications \<circ> events) (play [3, 4] (addPlayer (createStandardGame (demo_players 0)) 0))
      = Some (notifications (events (addPlayer (createStandardGame (demo_players 0)) 0)))"
    by blast
  ultimately show ?thesis using one
    by (simp add: solo_game_fields)
qed

subsection \<open>The frame of a turn\<close>

text \<open>
  C10. A turn on a non-empty queue returns a state in which every player object other
  than the front player's is unchanged. Of the front player, the identifier and the name
  are unchanged and the win count grows by one exactly on a win event. The board and the
  observer list are unchanged. The queue holds the same players with the same
  multiplicities: on a win event it is left as it was, otherwise the front player has
  moved to the back.
\<close>

theorem turn_changes_only_front_player:
  assumes "turnQueue g = p # rest"
  shows "\<exists>g'. turn roll g = Some g'
    \<and> (\<forall>a. a \<noteq> p \<longrightarrow> players g' a = players g a)
    \<and> playerId (players g' p) = playerId (players g p)
    \<and> playerName (players g' p) = playerName (players g p)
    \<and> winCount (players g' p) = winCount (players g p) + (if win_event roll g then 1 else 0)
    \<and> gameBoard g' = gameBoard g
    \<and> subscriberList g' = subscriberList g
    \<and> mset (turnQueue g') = mset (turnQueue g)
    \<and> turnQueue g' = (if win_event roll g then p # rest else rest @ [p])"
proof -
  from turn_fields [OF assms, of roll] obtain g' where
    t: "turn roll g = Some g'"
    and same: "gameBoard g' = gameBoard g" "subscriberList g' = subscriberList g"
    and q: "turnQueue g' = (if win_event roll g then p # rest else rest @ [p])"
    and pl: "players g' =
        (if isValidMove (getPosition (players g p)) roll (getBoardSize (gameBoard g))
         then (players g)(p := (players g p)
                \<lparr>currentPosition := calculateNewPosition (getPosition (players g p)) roll (gameBoard g),
                 winCount := (if win_event roll g then winCount (players g p) + 1
                              else winCount (players g p))\<rparr>)
         else players g)"
    by blast
  from q assms have "mset (turnQueue g') = mset (turnQueue g)"
    by (simp split: if_splits)
  moreover from assms have "\<not> isValidMove (getPosition (players g p)) roll (getBoardSize (gameBoard g))
      \<Longrightarrow> \<not> win_event roll g"
    by (simp add: win_event_def)
  ultimately show ?thesis using t q pl same
    by (auto split: if_splits)
qed

text \<open>
  Ann at 55 rolls 7 and slides down the snake at 62: the queue becomes Bob, Ann; Bob's
  player object is unchanged and Ann's win count stays 0.
\<close>

theorem turn_changes_only_front_player_witness:
  "turnQueue (demo_game 55) = [0, 1]
   \<and> map_option turnQueue (turn 7 (demo_game 55)) = Some [1, 0]
   \<and> map_option (\<lambda>g. players g 1) (turn 7 (demo_game 55)) = Some (players (demo_game 55) 1)
   \<and> map_option (\<lambda>g. winCount (players g 0)) (turn 7 (demo_game 55)) = Some 0"
proof -
  have q: "turnQueue (demo_game 55) = [0, 1]"
    by (simp add: demo_game_fields)
  from turn_changes_only_front_player [OF q, of 7] obtain g' where
    t: "turn 7 (demo_game 55) = Some g'"
    and others: "\<forall>a. a \<noteq> 0 \<longrightarrow> players g' a = players (demo_game 55) a"
    and wins: "winCount (players g' 0) = winCount (players (demo_game 55) 0)
                 + (if win_event 7 (demo_game 55) then 1 else 0)"
    and queue: "turnQueue g' = (if win_event 7 (demo_game 55) then [0, 1] else [1] @ [0])"
    by blast
  from others have "players g' 1 = players (demo_game 55) 1"
    by simp
  moreover from wins have "winCount (players g' 0) = 0"
    by (simp add: demo_no_win_event demo_game_fields demo_players_def setPosition_def
        new_SnakeAndLadderPlayer_def)
  moreover from queue have "turnQueue g' = [1, 0]"
    by (simp add: demo_no_win_event)
  ultimately show ?thesis using q t
    by simp
qed

end
